theory Spec2Isabelle
  imports Main "HOL-Library.AList" "HOL-Library.Word"
begin

section \<open>Data model of the refactoring results (refactor/types.ts)\<close>

text \<open>
  A JavaScript string is a sequence of UTF-16 code units. File paths, commit identifiers and
  message texts are only compared and concatenated; \<open>String.prototype.trim\<close> inspects the
  code units themselves.
\<close>

type_synonym js_string = "16 word list"

text \<open>\<open>refactorStepResultSchema\<close>: one attempted edit.\<close>

record RefactorStepResult =
  task :: js_string
  fileContents :: js_string
  commit :: js_string

text \<open>\<open>issueSchema\<close>: a finding of a validation script.\<close>

datatype Issue = Issue
  (command: js_string)
  (issue: js_string)
  (issue_filePath: js_string)
  (issue_commit: js_string)
  (code: "js_string option")

text \<open>
  \<open>refactorFailedResultSchema\<close> and \<open>refactorResultSchema\<close>. The discriminated union on
  \<open>status\<close> is a datatype with one constructor per status; the optional \<open>lastCommit\<close> is an
  option.
\<close>

datatype RefactorFailedResult = RefactorFailedResult
  (failureDescription: js_string)
  (failed_filePath: js_string)
  (failed_issues: "Issue list")
  (failed_steps: "RefactorStepResult list")
  (failed_lastCommit: "js_string option")

datatype RefactorResult =
    Success js_string "Issue list" "RefactorStepResult list" "js_string option"
  | Failure RefactorFailedResult

fun filePath :: "RefactorResult \<Rightarrow> js_string" where
  "filePath (Success fp iss sts lc) = fp"
| "filePath (Failure f) = failed_filePath f"

fun steps :: "RefactorResult \<Rightarrow> RefactorStepResult list" where
  "steps (Success fp iss sts lc) = sts"
| "steps (Failure f) = failed_steps f"

fun lastCommit_of :: "RefactorResult \<Rightarrow> js_string option" where
  "lastCommit_of (Success fp iss sts lc) = lc"
| "lastCommit_of (Failure f) = failed_lastCommit f"

section \<open>Errors\<close>

text \<open>
  A rejected promise or a thrown exception is a value of \<open>error\<close>. \<open>CycleDetectedError\<close>
  is the class \<open>planAndRefactor\<close> tests with \<open>instanceof\<close>; the three errors of
  \<open>enrichObjective\<close> are plain \<open>Error\<close>s told apart by their message; \<open>TypeError\<close> is
  what calling a method that a value does not have throws; \<open>OtherError\<close> stands for any
  other exception, identified by a number.
\<close>

datatype error =
    CycleDetectedError
  | NoMessagesFound
  | LastMessageNotFromAssistant
  | LastMessageIsFunctionCall
  | TypeError
  | OtherError nat

section \<open>Records by file path (refactor/types.ts)\<close>

text \<open>
  \<open>RefactorResultByFilePathRecord\<close> is a plain object used as a dictionary from file path to
  an array of results. Its own properties are an association list in the insertion order of
  the keys; the value of a key is the first pair with that key (\<open>map_of\<close>), and
  \<open>AList.update\<close> assigns to an own key in its place or adds a new key last.
\<close>

type_synonym 'a by_file_path = "(js_string \<times> 'a list) list"

text \<open>Reading an own key, an absent key taken as the empty array.\<close>

definition entries_at :: "'a by_file_path \<Rightarrow> js_string \<Rightarrow> 'a list" where
  "entries_at m key = (case map_of m key of None \<Rightarrow> [] | Some array \<Rightarrow> array)"

text \<open>
  \<open>Object.entries\<close>: the own keys, each once with its value, in the order of their first
  appearance.
\<close>

definition Object_entries :: "'a by_file_path \<Rightarrow> (js_string \<times> 'a list) list" where
  "Object_entries obj = AList.clearjunk obj"

text \<open>Text in ASCII as a JavaScript string.\<close>

definition js :: "string \<Rightarrow> js_string" where
  "js s = map of_char s"

text \<open>
  The objects are created by object literals and by parsing, so their prototype is
  \<open>Object.prototype\<close>, and a read \<open>obj[key]\<close> of a key that is not an own property finds
  the property of that name on the prototype: one of the functions below, or for
  \<open>__proto__\<close> the prototype itself. Each of these values is truthy and has neither a
  \<open>concat\<close> nor a \<open>push\<close> method.
\<close>

definition objectPrototypeNames :: "js_string list" where
  "objectPrototypeNames =
     map js [''constructor'', ''__defineGetter__'', ''__defineSetter__'', ''hasOwnProperty'',
             ''__lookupGetter__'', ''__lookupSetter__'', ''isPrototypeOf'',
             ''propertyIsEnumerable'', ''toString'', ''valueOf'', ''__proto__'',
             ''toLocaleString'']"

text \<open>
  The value of the expression \<open>obj[key]\<close>: the array of an own key, a value inherited from
  the prototype, or \<open>undefined\<close>.
\<close>

datatype 'a property = OwnValue 'a | InheritedValue | NoValue

definition get_property :: "'a by_file_path \<Rightarrow> js_string \<Rightarrow> 'a list property" where
  "get_property obj key =
     (case map_of obj key of
        Some array \<Rightarrow> OwnValue array
      | None \<Rightarrow> if key \<in> set objectPrototypeNames then InheritedValue else NoValue)"

text \<open>\<open>refactorFilesResultSchema\<close>.\<close>

record RefactorFilesResult =
  accepted :: "RefactorResult by_file_path"
  discarded :: "RefactorFailedResult by_file_path"

text \<open>
  Reading an array at an index, as JavaScript does: \<open>undefined\<close> (here \<open>None\<close>) outside
  \<open>0 .. length - 1\<close>.
\<close>

definition js_index :: "'a list \<Rightarrow> int \<Rightarrow> 'a option" where
  "js_index xs i = (if 0 \<le> i \<and> i < int (length xs) then Some (xs ! nat i) else None)"

text \<open>
  \<^verbatim>\<open>
  export const lastCommit = <T extends { commit: string }>(steps: T[]) => {
      return steps[steps.length - 1]?.commit;
  };
  \<close>
\<close>

definition lastCommit :: "'a RefactorStepResult_scheme list \<Rightarrow> js_string option" where
  "lastCommit sts = map_option commit (js_index sts (int (length sts) - 1))"

text \<open>
  \<^verbatim>\<open>
  const array = opts.into[opts.result.filePath];
  if (array) { array.push(opts.result); }
  else { opts.into[opts.result.filePath] = [opts.result]; }
  \<close>
  An array is truthy even when empty, and so is an inherited value, on which \<open>push\<close> is not
  a function. The record is mutated in place; the model returns the record after the call.
\<close>

definition pushRefactorFileResults ::
  "RefactorResult \<Rightarrow> RefactorResult by_file_path \<Rightarrow> error + RefactorResult by_file_path" where
  "pushRefactorFileResults result into =
     (case get_property into (filePath result) of
        OwnValue array \<Rightarrow> Inr (AList.update (filePath result) (array @ [result]) into)
      | InheritedValue \<Rightarrow> Inl TypeError
      | NoValue \<Rightarrow> Inr (AList.update (filePath result) [result] into))"

text \<open>
  \<^verbatim>\<open>
  for (const [file, tasks] of Object.entries(opts.from)) {
      const existing = opts.into[file];
      if (existing) { opts.into[file] = existing.concat(tasks); }
      else { opts.into[file] = tasks; }
  }
  \<close>
  \<open>mergeEntry\<close> is the body of the loop for one entry; on an inherited value
  \<open>existing.concat\<close> is not a function. \<open>mergeEntries\<close> is the loop: when an entry throws,
  the error comes with \<open>into\<close> as the entries before it have left it.
\<close>

definition mergeEntry :: "js_string \<times> 'a list \<Rightarrow> 'a by_file_path \<Rightarrow> error + 'a by_file_path" where
  "mergeEntry entry into =
     (case entry of (file, tasks) \<Rightarrow>
        (case get_property into file of
           OwnValue existing \<Rightarrow> Inr (AList.update file (existing @ tasks) into)
         | InheritedValue \<Rightarrow> Inl TypeError
         | NoValue \<Rightarrow> Inr (AList.update file tasks into)))"

fun mergeEntries ::
  "(js_string \<times> 'a list) list \<Rightarrow> 'a by_file_path \<Rightarrow> error \<times> 'a by_file_path + 'a by_file_path" where
  "mergeEntries [] into = Inr into"
| "mergeEntries (entry # rest) into =
     (case mergeEntry entry into of
        Inl err \<Rightarrow> Inl (err, into)
      | Inr into' \<Rightarrow> mergeEntries rest into')"

definition mutateToMergeRefactorRecords ::
  "'a by_file_path \<Rightarrow> 'a by_file_path \<Rightarrow> error \<times> 'a by_file_path + 'a by_file_path" where
  "mutateToMergeRefactorRecords from into = mergeEntries (Object_entries from) into"

text \<open>
  \<open>mutateToMergeRefactorFilesResults\<close> merges the accepted record, then the discarded one;
  the model returns \<open>into\<close> after the call, or the error with \<open>into\<close> as it is when the
  error is thrown.
\<close>

definition mutateToMergeRefactorFilesResults ::
  "RefactorFilesResult \<Rightarrow> RefactorFilesResult \<Rightarrow>
     error \<times> RefactorFilesResult + RefactorFilesResult" where
  "mutateToMergeRefactorFilesResults from into =
     (case mutateToMergeRefactorRecords (accepted from) (accepted into) of
        Inl (err, acc) \<Rightarrow> Inl (err, \<lparr> accepted = acc, discarded = discarded into \<rparr>)
      | Inr acc \<Rightarrow>
          (case mutateToMergeRefactorRecords (discarded from) (discarded into) of
             Inl (err, dis) \<Rightarrow> Inl (err, \<lparr> accepted = acc, discarded = dis \<rparr>)
           | Inr dis \<Rightarrow> Inr \<lparr> accepted = acc, discarded = dis \<rparr>))"

text \<open>
  The invariant the specification states for a \<open>RefactorResult\<close>: \<open>lastCommit\<close> is the commit
  of the final step, or absent when there is no step.
\<close>

definition lastCommit_invariant :: "RefactorResult \<Rightarrow> bool" where
  "lastCommit_invariant r =
     (case steps r of
        [] \<Rightarrow> lastCommit_of r = None
      | s # ss \<Rightarrow> lastCommit_of r = Some (commit (last (s # ss))))"

section \<open>Enriching the objective (refactor/enrichObjective.ts)\<close>

text \<open>
  \<open>String.prototype.trim\<close> removes the white space and line terminator code units of
  ECMAScript from both ends: TAB, LF, VT, FF, CR, SP, NBSP, the space separators
  U+1680, U+2000 to U+200A, U+202F, U+205F and U+3000, the separators U+2028 and U+2029, and
  the byte order mark U+FEFF.
\<close>

definition isWhiteSpace :: "16 word \<Rightarrow> bool" where
  "isWhiteSpace c =
     (c = 0x0009 \<or> c = 0x000A \<or> c = 0x000B \<or> c = 0x000C \<or> c = 0x000D \<or> c = 0x0020
      \<or> c = 0x00A0 \<or> c = 0x1680 \<or> (0x2000 \<le> c \<and> c \<le> 0x200A) \<or> c = 0x2028 \<or> c = 0x2029
      \<or> c = 0x202F \<or> c = 0x205F \<or> c = 0x3000 \<or> c = 0xFEFF)"

definition trim :: "js_string \<Rightarrow> js_string" where
  "trim s = rev (dropWhile isWhiteSpace (rev (dropWhile isWhiteSpace s)))"

text \<open>\<open>Array.prototype.join\<close> on an array of strings.\<close>

fun join :: "js_string \<Rightarrow> js_string list \<Rightarrow> js_string" where
  "join sep [] = []"
| "join sep [x] = x"
| "join sep (x # y # ys) = x @ sep @ join sep (y # ys)"

text \<open>
  A chat message as \<open>enrichObjective\<close> reads it: its \<open>role\<close>, whether it has the key
  \<open>functionCall\<close> (the payload type \<open>'fc\<close> is declared outside these sources), and its
  \<open>content\<close>.
\<close>

record 'fc Message =
  role :: js_string
  functionCall :: "'fc option"
  content :: js_string

text \<open>The string \<open>'assistant'\<close>.\<close>

definition assistant :: js_string where
  "assistant = [0x61, 0x73, 0x73, 0x69, 0x73, 0x74, 0x61, 0x6E, 0x74]"

record EnrichObjectiveResponse =
  enrichedObjective :: js_string

text \<open>
  The transform of \<open>enrichObjective\<close>, from the objective of its input and the outcome of
  the prompt step (\<open>promptWithFunctions\<close> is a collaborator: it either rejects, which
  rejects the transform, or returns the messages).
  \<^verbatim>\<open>
  const lastMessage = messages[messages.length - 1];
  if (!lastMessage) { throw new Error(`No messages found after prompt`); }
  if (lastMessage.role !== 'assistant') {
      throw new Error(`Expected last message to be from assistant`); }
  if ('functionCall' in lastMessage) {
      throw new Error(`Expected last message to not be a function-call`); }
  return { enrichedObjective:
      [input.objective.trim(), lastMessage.content.trim()].join('\n\n') };
  \<close>
\<close>

definition enrichObjective ::
  "js_string \<Rightarrow> error + 'fc Message list \<Rightarrow> error + EnrichObjectiveResponse" where
  "enrichObjective objective prompted =
     (case prompted of
        Inl err \<Rightarrow> Inl err
      | Inr messages \<Rightarrow>
          (case js_index messages (int (length messages) - 1) of
             None \<Rightarrow> Inl NoMessagesFound
           | Some lastMessage \<Rightarrow>
               if role lastMessage \<noteq> assistant then Inl LastMessageNotFromAssistant
               else if functionCall lastMessage \<noteq> None then Inl LastMessageIsFunctionCall
               else Inr \<lparr> enrichedObjective =
                      join [0x000A, 0x000A] [trim objective, trim (content lastMessage)] \<rparr>))"

section \<open>The plan and refactor loop (refactor/planAndRefactor.ts)\<close>

text \<open>
  Modelled from the spec: \<open>planFilesResultSchema\<close> is declared in refactor/planFiles, which
  is not among the sources; the Plan Producer returns
  \<open>{plannedFiles: ordered path list, rawResponse: text}\<close>, the two fields the loop reads.
\<close>

record PlanFilesResult =
  plannedFiles :: "js_string list"
  rawResponse :: js_string

text \<open>
  The collaborators of the loop are asynchronous functions outside these sources. Each is
  given by its outcome at its k-th call of the run (counted from 0): a rejection \<open>Inl\<close> or a
  result \<open>Inr\<close>. The \<open>input\<close> of the run is the same at every call and is part of the
  collaborator. Any sequence of outcomes is some value of this record.
\<close>

record collaborators =
  planFiles :: "nat \<Rightarrow> error + PlanFilesResult"
  refactorBatch :: "nat \<Rightarrow> js_string list \<Rightarrow> error + RefactorFilesResult"
  resetToLastAcceptedCommit :: "nat \<Rightarrow> RefactorFilesResult \<Rightarrow> error + unit"

text \<open>
  The steps of a run in the order it makes them: a collaborator call with its arguments and
  outcome, a \<open>planFilesComplete\<close> action given to \<open>deps.dispatch\<close>, the merge of a batch
  result into the accumulator with its outcome, the warning of the logger.

  Modelled from the spec: the event sink (../event-bus) and the logger are not among the
  sources; \<open>dispatch\<close> is fire-and-forget with no acknowledgment, so it and \<open>logger.warn\<close>
  return without an exception.
\<close>

datatype event =
    PlanFiles "error + PlanFilesResult"
  | Dispatch PlanFilesResult
  | RefactorBatch "js_string list" "error + RefactorFilesResult"
  | ResetToLastAcceptedCommit RefactorFilesResult "error + unit"
  | Merge RefactorFilesResult "error + unit"
  | Warn

text \<open>
  The variables of \<open>planAndRefactor\<close> at the test of the \<open>while\<close> loop: \<open>files\<close>,
  \<open>planFilesResults\<close> and \<open>plannedFiles\<close>, with the number of iterations completed and the
  events so far.
\<close>

record loop_state =
  iterations :: nat
  trace :: "event list"
  var_files :: RefactorFilesResult
  var_planFilesResults :: "PlanFilesResult list"
  var_plannedFiles :: "js_string list"

text \<open>The value \<open>{...files, planFilesResults}\<close>.\<close>

record PlanAndRefactorResult = RefactorFilesResult +
  planFilesResults :: "PlanFilesResult list"

text \<open>
  A run either returns a result, or rejects with an error and no result, or is still in the
  loop when the fuel (the number of times the loop test may be evaluated) is used up. The
  first two carry the events of the whole run.
\<close>

datatype outcome =
    Resolved PlanAndRefactorResult "event list"
  | Rejected error "event list"
  | Unfinished loop_state

text \<open>
  The first planning call, its dispatch and its record (lines 36 to 53). A rejection of this
  call is not caught.
\<close>

definition prologue :: "collaborators \<Rightarrow> error \<times> event list + loop_state" where
  "prologue env =
     (case planFiles env 0 of
        Inl err \<Rightarrow> Inl (err, [PlanFiles (Inl err)])
      | Inr planResult \<Rightarrow>
          Inr \<lparr> iterations = 0,
                trace = [PlanFiles (Inr planResult), Dispatch planResult],
                var_files = \<lparr> accepted = [], discarded = [] \<rparr>,
                var_planFilesResults =
                  [\<lparr> plannedFiles = plannedFiles planResult,
                      rawResponse = rawResponse planResult \<rparr>],
                var_plannedFiles = plannedFiles planResult \<rparr>)"

text \<open>
  The re-planning call with its \<open>catch\<close> handler (lines 71 to 91): a
  \<open>CycleDetectedError\<close> is logged and replaced by the empty plan, any other error is
  rejected again.
\<close>

definition replan ::
  "collaborators \<Rightarrow> nat \<Rightarrow> event list \<Rightarrow> error \<times> event list + PlanFilesResult \<times> event list" where
  "replan env k tr =
     (case planFiles env k of
        Inr planResult \<Rightarrow> Inr (planResult, tr @ [PlanFiles (Inr planResult)])
      | Inl err \<Rightarrow>
          if err = CycleDetectedError
          then Inr (\<lparr> plannedFiles = [], rawResponse = [] \<rparr>, tr @ [PlanFiles (Inl err), Warn])
          else Inl (err, tr @ [PlanFiles (Inl err)]))"

text \<open>
  One iteration of the loop (lines 56 to 105). An exception of the merge at line 66 is not
  caught and rejects the run. \<open>splice\<close> replaces the whole content of \<open>plannedFiles\<close> by
  the new plan.
\<close>

definition loop_body :: "collaborators \<Rightarrow> loop_state \<Rightarrow> error \<times> event list + loop_state" where
  "loop_body env s =
     (let batch = refactorBatch env (iterations s) (var_plannedFiles s);
          tr1 = trace s @ [RefactorBatch (var_plannedFiles s) batch]
      in case batch of
           Inl err \<Rightarrow> Inl (err, tr1)
         | Inr result \<Rightarrow>
             (let reset = resetToLastAcceptedCommit env (iterations s) result;
                  tr2 = tr1 @ [ResetToLastAcceptedCommit result reset]
              in case reset of
                   Inl err \<Rightarrow> Inl (err, tr2)
                 | Inr u \<Rightarrow>
                     (case mutateToMergeRefactorFilesResults result (var_files s) of
                        Inl (err, partly) \<Rightarrow> Inl (err, tr2 @ [Merge result (Inl err)])
                      | Inr merged \<Rightarrow>
                          (case replan env (Suc (iterations s))
                                  (tr2 @ [Merge result (Inr ())]) of
                             Inl rejection \<Rightarrow> Inl rejection
                           | Inr (repeatedPlanResult, tr4) \<Rightarrow>
                               Inr \<lparr> iterations = Suc (iterations s),
                                     trace = tr4 @ [Dispatch repeatedPlanResult],
                                     var_files = merged,
                                     var_planFilesResults = var_planFilesResults s @
                                       [\<lparr> plannedFiles = plannedFiles repeatedPlanResult,
                                           rawResponse = rawResponse repeatedPlanResult \<rparr>],
                                     var_plannedFiles = plannedFiles repeatedPlanResult \<rparr>))))"

text \<open>The value returned after the loop.\<close>

definition result_of :: "loop_state \<Rightarrow> PlanAndRefactorResult" where
  "result_of s =
     \<lparr> accepted = accepted (var_files s), discarded = discarded (var_files s),
       planFilesResults = var_planFilesResults s \<rparr>"

text \<open>The \<open>while (plannedFiles.length > 0)\<close> loop and the \<open>return\<close> after it.\<close>

fun loop :: "nat \<Rightarrow> collaborators \<Rightarrow> loop_state \<Rightarrow> outcome" where
  "loop 0 env s = Unfinished s"
| "loop (Suc fuel) env s =
     (if length (var_plannedFiles s) > 0
      then (case loop_body env s of
              Inl (err, tr) \<Rightarrow> Rejected err tr
            | Inr s' \<Rightarrow> loop fuel env s')
      else Resolved (result_of s) (trace s))"

definition planAndRefactor :: "nat \<Rightarrow> collaborators \<Rightarrow> outcome" where
  "planAndRefactor fuel env =
     (case prologue env of
        Inl (err, tr) \<Rightarrow> Rejected err tr
      | Inr s \<Rightarrow> loop fuel env s)"

text \<open>
  The state at the loop test after \<open>k\<close> more complete iterations, when the run gets there.
\<close>

fun head_after :: "nat \<Rightarrow> collaborators \<Rightarrow> loop_state \<Rightarrow> loop_state option" where
  "head_after 0 env s = Some s"
| "head_after (Suc k) env s =
     (if length (var_plannedFiles s) > 0
      then (case loop_body env s of Inl rejection \<Rightarrow> None | Inr s' \<Rightarrow> head_after k env s')
      else None)"

text \<open>
  The events of the iteration that starts in state \<open>s\<close>, up to its end or to the step that
  rejects.
\<close>

definition iteration_events :: "collaborators \<Rightarrow> loop_state \<Rightarrow> event list" where
  "iteration_events env s =
     (case loop_body env s of
        Inl (err, tr) \<Rightarrow> drop (length (trace s)) tr
      | Inr s' \<Rightarrow> drop (length (trace s)) (trace s'))"

section \<open>Reading the events of a run\<close>








fun planning_outcomes :: "event list \<Rightarrow> (error + PlanFilesResult) list" where
  "planning_outcomes [] = []"
| "planning_outcomes (e # es) =
     (case e of PlanFiles outcome \<Rightarrow> outcome # planning_outcomes es | _ \<Rightarrow> planning_outcomes es)"

text \<open>
  The record pushed for a planning call: the plan it returned, or the empty plan put in its
  place after a \<open>CycleDetectedError\<close>; no record for another rejection.
\<close>

definition plan_record :: "error + PlanFilesResult \<Rightarrow> PlanFilesResult option" where
  "plan_record outcome =
     (case outcome of
        Inr plan \<Rightarrow> Some \<lparr> plannedFiles = plannedFiles plan, rawResponse = rawResponse plan \<rparr>
      | Inl err \<Rightarrow>
          if err = CycleDetectedError then Some \<lparr> plannedFiles = [], rawResponse = [] \<rparr>
          else None)"

text \<open>
  The results of the batches that completed, in their order, and what they hold for a file
  path, one batch after the other.
\<close>

fun batch_results :: "event list \<Rightarrow> RefactorFilesResult list" where
  "batch_results [] = []"
| "batch_results (e # es) =
     (case e of
        RefactorBatch planned outcome \<Rightarrow>
          (case outcome of Inr result \<Rightarrow> result # batch_results es | Inl err \<Rightarrow> batch_results es)
      | _ \<Rightarrow> batch_results es)"

definition accepted_so_far :: "event list \<Rightarrow> js_string \<Rightarrow> RefactorResult list" where
  "accepted_so_far tr key = concat (map (\<lambda>b. entries_at (accepted b) key) (batch_results tr))"

definition discarded_so_far :: "event list \<Rightarrow> js_string \<Rightarrow> RefactorFailedResult list" where
  "discarded_so_far tr key = concat (map (\<lambda>b. entries_at (discarded b) key) (batch_results tr))"

text \<open>Invariants of the loop test used in the proofs.\<close>

definition accumulated_state :: "loop_state \<Rightarrow> bool" where
  "accumulated_state s =
     (\<forall>key. entries_at (accepted (var_files s)) key = accepted_so_far (trace s) key
           \<and> entries_at (discarded (var_files s)) key = discarded_so_far (trace s) key)"



definition recorded_state :: "collaborators \<Rightarrow> loop_state \<Rightarrow> bool" where
  "recorded_state env s =
     (planning_outcomes (trace s) = map (planFiles env) [0..<Suc (iterations s)]
      \<and> map Some (var_planFilesResults s) = map plan_record (planning_outcomes (trace s)))"

section \<open>Concrete values used to instantiate the theorems\<close>

definition path_a :: js_string where
  "path_a = [0x61]"

definition path_b :: js_string where
  "path_b = [0x62]"

definition commit_1 :: js_string where
  "commit_1 = [0x63, 0x31]"

definition commit_2 :: js_string where
  "commit_2 = [0x63, 0x32]"

definition step_1 :: RefactorStepResult where
  "step_1 = \<lparr> task = [0x74], fileContents = [], commit = commit_1 \<rparr>"

definition step_2 :: RefactorStepResult where
  "step_2 = \<lparr> task = [0x75], fileContents = [], commit = commit_2 \<rparr>"

definition success_a :: RefactorResult where
  "success_a = Success path_a [] [step_1, step_2] (Some commit_2)"

definition failed_b :: RefactorFailedResult where
  "failed_b = RefactorFailedResult [0x78] path_b [] [] None"

definition failure_b :: RefactorResult where
  "failure_b = Failure failed_b"

definition failure_a :: RefactorResult where
  "failure_a = Failure (RefactorFailedResult [0x79] path_a [] [step_1] (Some commit_1))"

definition batch_1 :: RefactorFilesResult where
  "batch_1 = \<lparr> accepted = [(path_a, [success_a])], discarded = [(path_b, [failed_b])] \<rparr>"

definition batch_2 :: RefactorFilesResult where
  "batch_2 = \<lparr> accepted = [(path_b, [failure_b]), (path_a, [failure_a])], discarded = [] \<rparr>"

definition emptyFiles :: RefactorFilesResult where
  "emptyFiles = \<lparr> accepted = [], discarded = [] \<rparr>"


definition failed_a :: RefactorFailedResult where
  "failed_a = RefactorFailedResult [0x7A] path_a [] [] None"

definition batch_none :: RefactorFilesResult where
  "batch_none = \<lparr> accepted = [], discarded = [(path_a, [failed_a]), (path_b, [failed_b])] \<rparr>"

text \<open>A file named \<open>constructor\<close> at the root of the repository, and a batch that accepts it.\<close>

definition path_constructor :: js_string where
  "path_constructor = js ''constructor''"

definition success_constructor :: RefactorResult where
  "success_constructor = Success path_constructor [] [] None"

definition batch_constructor :: RefactorFilesResult where
  "batch_constructor =
     \<lparr> accepted = [(path_constructor, [success_constructor])], discarded = [] \<rparr>"

definition plan_ab :: PlanFilesResult where
  "plan_ab = \<lparr> plannedFiles = [path_a, path_b], rawResponse = [0x72] \<rparr>"

definition plan_done :: PlanFilesResult where
  "plan_done = \<lparr> plannedFiles = [], rawResponse = [0x64] \<rparr>"

definition plan_substituted :: PlanFilesResult where
  "plan_substituted = \<lparr> plannedFiles = [], rawResponse = [] \<rparr>"

text \<open>
  Collaborators whose reset always succeeds. With a first batch \<open>batch_1\<close>, the second
  planning call signals a cycle (\<open>env_cycle\<close>), fails with another error (\<open>env_fault\<close>) or
  returns the empty plan (\<open>env_done\<close>). With batches \<open>batch_1\<close> and \<open>batch_2\<close> and the
  first plan returned twice, the third planning call signals a cycle (\<open>env_cycle_later\<close>) or
  fails with another error (\<open>env_fault_later\<close>). In \<open>env_repeat\<close> the first batch changes
  no file, the first plan is returned a second time, the second batch is \<open>batch_1\<close> and the
  third plan is empty. In \<open>env_batch_fault\<close> the first batch rejects.
\<close>

definition env_cycle :: collaborators where
  "env_cycle =
     \<lparr> planFiles = (\<lambda>k. if k = 0 then Inr plan_ab else Inl CycleDetectedError),
       refactorBatch = (\<lambda>k planned. Inr batch_1),
       resetToLastAcceptedCommit = (\<lambda>k result. Inr ()) \<rparr>"


definition env_done :: collaborators where
  "env_done =
     \<lparr> planFiles = (\<lambda>k. if k = 0 then Inr plan_ab else Inr plan_done),
       refactorBatch = (\<lambda>k planned. Inr batch_1),
       resetToLastAcceptedCommit = (\<lambda>k result. Inr ()) \<rparr>"

definition env_cycle_later :: collaborators where
  "env_cycle_later =
     \<lparr> planFiles = (\<lambda>k. if k < 2 then Inr plan_ab else Inl CycleDetectedError),
       refactorBatch = (\<lambda>k planned. if k = 0 then Inr batch_1 else Inr batch_2),
       resetToLastAcceptedCommit = (\<lambda>k result. Inr ()) \<rparr>"

definition env_fault_later :: collaborators where
  "env_fault_later =
     \<lparr> planFiles = (\<lambda>k. if k < 2 then Inr plan_ab else Inl (OtherError 7)),
       refactorBatch = (\<lambda>k planned. if k = 0 then Inr batch_1 else Inr batch_2),
       resetToLastAcceptedCommit = (\<lambda>k result. Inr ()) \<rparr>"

definition env_repeat :: collaborators where
  "env_repeat =
     \<lparr> planFiles = (\<lambda>k. if k < 2 then Inr plan_ab else Inr plan_done),
       refactorBatch = (\<lambda>k planned. if k = 0 then Inr batch_none else Inr batch_1),
       resetToLastAcceptedCommit = (\<lambda>k result. Inr ()) \<rparr>"


text \<open>
  The state at the first test of the loop when the first plan is \<open>plan_ab\<close>; the state at
  the second test when the first batch is \<open>batch_1\<close> and the plan is returned again; and the
  files accumulated from \<open>batch_1\<close> and \<open>batch_2\<close>.
\<close>

definition state_0 :: loop_state where
  "state_0 =
     \<lparr> iterations = 0,
       trace = [PlanFiles (Inr plan_ab), Dispatch plan_ab],
       var_files = emptyFiles,
       var_planFilesResults = [plan_ab],
       var_plannedFiles = [path_a, path_b] \<rparr>"

definition state_1 :: loop_state where
  "state_1 =
     \<lparr> iterations = Suc 0,
       trace = [PlanFiles (Inr plan_ab), Dispatch plan_ab,
                RefactorBatch [path_a, path_b] (Inr batch_1),
                ResetToLastAcceptedCommit batch_1 (Inr ()), Merge batch_1 (Inr ()),
                PlanFiles (Inr plan_ab), Dispatch plan_ab],
       var_files = batch_1,
       var_planFilesResults = [plan_ab, plan_ab],
       var_plannedFiles = [path_a, path_b] \<rparr>"

definition files_1_2 :: RefactorFilesResult where
  "files_1_2 =
     \<lparr> accepted = [(path_a, [success_a, failure_a]), (path_b, [failure_b])],
       discarded = [(path_b, [failed_b])] \<rparr>"

section \<open>Properties of the result records\<close>

lemma mergeEntry_returns:
  assumes "mergeEntry (fl, ts) into = Inr m"
  shows "map_of m = (map_of into)(fl \<mapsto> entries_at into fl @ ts)"
  using assms
  by (auto simp add: mergeEntry_def get_property_def entries_at_def update_conv'
      split: option.splits if_splits)

lemma mergeEntry_throws:
  "mergeEntry (fl, ts) into = Inl err \<longleftrightarrow>
     err = TypeError \<and> map_of into fl = None \<and> fl \<in> set objectPrototypeNames"
  by (auto simp add: mergeEntry_def get_property_def split: option.splits)

lemma mergeEntries_returns:
  assumes "distinct (map fst xs)" and "mergeEntries xs into = Inr m"
  shows "map_of m key =
     (case map_of xs key of
        None \<Rightarrow> map_of into key
      | Some ts \<Rightarrow> Some (entries_at into key @ ts))"
  using assms
proof (induction xs arbitrary: into)
  case Nil
  then show ?case by simp
next
  case (Cons entry rest)
  obtain fl ts where e: "entry = (fl, ts)" by (cases entry)
  from Cons.prems(2) obtain into' where
    step: "mergeEntry entry into = Inr into'" and rest: "mergeEntries rest into' = Inr m"
    by (auto split: sum.splits)
  from step e have upd: "map_of into' = (map_of into)(fl \<mapsto> entries_at into fl @ ts)"
    using mergeEntry_returns by simp
  from Cons.prems(1) e have d: "distinct (map fst rest)" and nin: "fl \<notin> fst ` set rest"
    by auto
  note IH = Cons.IH [OF d rest]
  show ?case
  proof (cases "key = fl")
    case True
    with nin have "map_of rest key = None" by (simp add: map_of_eq_None_iff)
    with IH upd True e show ?thesis by simp
  next
    case False
    with upd have a: "map_of into' key = map_of into key" by simp
    then have b: "entries_at into' key = entries_at into key" by (simp add: entries_at_def)
    from False e have c: "map_of (entry # rest) key = map_of rest key" by simp
    show ?thesis
      unfolding IH a b c ..
  qed
qed

lemma merge_records_returns:
  assumes "mutateToMergeRefactorRecords from into = Inr m"
  shows "entries_at m key = entries_at into key @ entries_at from key"
proof -
  have "distinct (map fst (Object_entries from))"
    by (simp add: Object_entries_def distinct_clearjunk)
  moreover from assms have "mergeEntries (Object_entries from) into = Inr m"
    by (simp add: mutateToMergeRefactorRecords_def)
  ultimately have "map_of m key =
     (case map_of (Object_entries from) key of
        None \<Rightarrow> map_of into key
      | Some ts \<Rightarrow> Some (entries_at into key @ ts))"
    by (rule mergeEntries_returns)
  then show ?thesis
    by (simp add: entries_at_def Object_entries_def map_of_clearjunk split: option.splits)
qed

lemma merge_files_returns:
  assumes "mutateToMergeRefactorFilesResults from into = Inr m"
  shows "entries_at (accepted m) key = entries_at (accepted into) key @ entries_at (accepted from) key"
    and "entries_at (discarded m) key =
           entries_at (discarded into) key @ entries_at (discarded from) key"
proof -
  from assms obtain acc dis where
    a: "mutateToMergeRefactorRecords (accepted from) (accepted into) = Inr acc" and
    d: "mutateToMergeRefactorRecords (discarded from) (discarded into) = Inr dis" and
    m: "m = \<lparr> accepted = acc, discarded = dis \<rparr>"
    by (auto simp add: mutateToMergeRefactorFilesResults_def split: sum.splits)
  from a m show "entries_at (accepted m) key =
      entries_at (accepted into) key @ entries_at (accepted from) key"
    by (simp add: merge_records_returns)
  from d m show "entries_at (discarded m) key =
      entries_at (discarded into) key @ entries_at (discarded from) key"
    by (simp add: merge_records_returns)
qed

lemma mergeEntries_no_inherited_key:
  assumes "\<forall>key \<in> fst ` set xs. key \<notin> set objectPrototypeNames"
  shows "\<exists>m. mergeEntries xs into = Inr m"
  using assms
proof (induction xs arbitrary: into)
  case Nil
  then show ?case by simp
next
  case (Cons entry rest)
  obtain fl ts where e: "entry = (fl, ts)" by (cases entry)
  with Cons.prems have "fl \<notin> set objectPrototypeNames" by simp
  then have "\<forall>err. mergeEntry (fl, ts) into \<noteq> Inl err"
    by (simp add: mergeEntry_throws)
  then obtain into' where "mergeEntry (fl, ts) into = Inr into'"
    by (cases "mergeEntry (fl, ts) into") auto
  moreover from Cons.prems have "\<forall>key \<in> fst ` set rest. key \<notin> set objectPrototypeNames"
    by simp
  from Cons.IH [OF this] obtain m where "mergeEntries rest into' = Inr m" by blast
  ultimately show ?case using e by simp
qed

lemma merge_records_no_inherited_key:
  assumes "\<forall>key \<in> fst ` set from. key \<notin> set objectPrototypeNames"
  shows "\<exists>m. mutateToMergeRefactorRecords from into = Inr m"
proof -
  have "fst ` set (Object_entries from) = fst ` set from"
    using clearjunk_keys_set [of "from"] by (simp add: Object_entries_def)
  with assms show ?thesis
    unfolding mutateToMergeRefactorRecords_def
    by (intro mergeEntries_no_inherited_key) simp
qed

lemma push_returns:
  assumes "pushRefactorFileResults r into = Inr m"
  shows "map_of m (filePath r) = Some (entries_at into (filePath r) @ [r])"
    and "key \<noteq> filePath r \<Longrightarrow> map_of m key = map_of into key"
  using assms
  by (auto simp add: pushRefactorFileResults_def get_property_def entries_at_def update_conv'
      split: option.splits if_splits)

lemma push_throws:
  "pushRefactorFileResults r into = Inl err \<longleftrightarrow>
     err = TypeError \<and> map_of into (filePath r) = None \<and> filePath r \<in> set objectPrototypeNames"
  by (auto simp add: pushRefactorFileResults_def get_property_def split: option.splits)

lemma constructor_inherited: "path_constructor \<in> set objectPrototypeNames"
  by (simp add: path_constructor_def objectPrototypeNames_def)

lemma js_index_last:
  "js_index xs (int (length xs) - 1) = (case xs of [] \<Rightarrow> None | y # ys \<Rightarrow> Some (last (y # ys)))"
proof (cases xs)
  case Nil
  then show ?thesis by (simp add: js_index_def)
next
  case (Cons y ys)
  have "nat (int (length (y # ys)) - 1) = length (y # ys) - 1" by simp
  then show ?thesis using Cons
    by (simp add: js_index_def last_conv_nth del: last.simps)
qed

text \<open>
  Claim C2. The claim asks, for every file path, that the merge leaves in \<open>into\<close> the
  previous array followed by the array of \<open>from\<close>. Wherever the merge returns it does
  (\<open>merge_files_returns\<close>), and it returns whenever no key of \<open>from\<close> names a property
  that \<open>into\<close> inherits without owning it (\<open>merge_records_no_inherited_key\<close>). For a
  file named \<open>constructor\<close> merged into the empty result the code reads the inherited
  \<open>Object\<close> function as the existing array and throws a \<open>TypeError\<close>, leaving \<open>into\<close>
  empty.
\<close>

theorem merge_throws_for_inherited_key:
  "mutateToMergeRefactorFilesResults batch_constructor emptyFiles = Inl (TypeError, emptyFiles)"
  using constructor_inherited
  by (simp add: mutateToMergeRefactorFilesResults_def mutateToMergeRefactorRecords_def
      Object_entries_def mergeEntry_def get_property_def batch_constructor_def emptyFiles_def)

text \<open>
  Claim C3. For the same file path the algebraic laws fail in the code: merging the batch into
  the empty result throws, so the empty result is not a left identity; and merging the empty
  result and then the batch into the batch returns both entries, while merging into the batch
  the merge of the batch into the empty result throws in the inner merge.
\<close>

theorem merge_identity_and_associativity_fail_for_inherited_key:
  "mutateToMergeRefactorFilesResults batch_constructor emptyFiles = Inl (TypeError, emptyFiles)
   \<and> mutateToMergeRefactorFilesResults emptyFiles batch_constructor = Inr batch_constructor
   \<and> mutateToMergeRefactorFilesResults batch_constructor batch_constructor =
       Inr \<lparr> accepted = [(path_constructor, [success_constructor, success_constructor])],
             discarded = [] \<rparr>"
  using constructor_inherited
  by (simp add: mutateToMergeRefactorFilesResults_def mutateToMergeRefactorRecords_def
      Object_entries_def mergeEntry_def get_property_def batch_constructor_def emptyFiles_def)

text \<open>
  Claim C4. \<open>lastCommit\<close> of a list of steps is the commit of the last step, and absent for
  the empty list; a result whose \<open>lastCommit\<close> field is computed by it from its own steps
  satisfies the invariant of the data model.
\<close>

theorem lastCommit_is_commit_of_final_step:
  "lastCommit sts = (case sts of [] \<Rightarrow> None | s # ss \<Rightarrow> Some (commit (last (s # ss))))
   \<and> (lastCommit_of r = lastCommit (steps r) \<longrightarrow> lastCommit_invariant r)"
proof -
  have a: "lastCommit xs = (case xs of [] \<Rightarrow> None | s # ss \<Rightarrow> Some (commit (last (s # ss))))"
    for xs :: "'b RefactorStepResult_scheme list"
    by (simp add: lastCommit_def js_index_last split: list.split)
  show ?thesis
    by (simp add: a lastCommit_invariant_def split: list.split)
qed

theorem lastCommit_is_commit_of_final_step_witness:
  "lastCommit [step_1, step_2] = Some commit_2
   \<and> lastCommit ([] :: RefactorStepResult list) = None
   \<and> lastCommit_of success_a = lastCommit (steps success_a)
   \<and> lastCommit_invariant success_a"
proof -
  have l: "lastCommit [step_1, step_2] = Some commit_2"
    by (simp add: lastCommit_def js_index_def step_2_def)
  have e: "lastCommit ([] :: RefactorStepResult list) = None"
    by (simp add: lastCommit_def js_index_def)
  have h: "lastCommit_of success_a = lastCommit (steps success_a)"
    by (simp add: success_a_def l)
  from lastCommit_is_commit_of_final_step [of "[step_1, step_2]" success_a] l e h
  show ?thesis by simp
qed

text \<open>
  Claim C10. Wherever \<open>pushRefactorFileResults\<close> returns, the result is appended last at
  its own file path and every other key is as before (\<open>push_returns\<close>); for a result whose
  file is named \<open>constructor\<close> and a record that does not own that key the code calls
  \<open>push\<close> on the inherited function and throws a \<open>TypeError\<close>.
\<close>

theorem push_throws_for_inherited_key:
  "pushRefactorFileResults success_constructor [] = Inl TypeError"
  using constructor_inherited
  by (simp add: pushRefactorFileResults_def get_property_def success_constructor_def)

section \<open>Properties of enrichObjective\<close>

text \<open>
  Claim C9. When the prompt step returns its messages, \<open>enrichObjective\<close> throws exactly
  when the list is empty, or its last message is not from the assistant, or its last message
  is a function call; otherwise it returns the trimmed objective, two newline characters and
  the trimmed content of the last message. A throw is a value \<open>Inl\<close>, which holds no result.
\<close>

theorem enrichObjective_throws_or_joins:
  "((\<exists>err. enrichObjective objective (Inr messages) = Inl err) \<longleftrightarrow>
      (messages = [] \<or> role (last messages) \<noteq> assistant
       \<or> functionCall (last messages) \<noteq> None))
   \<and> (messages \<noteq> [] \<and> role (last messages) = assistant
        \<and> functionCall (last messages) = None \<longrightarrow>
      enrichObjective objective (Inr messages) =
        Inr \<lparr> enrichedObjective =
                trim objective @ [0x000A, 0x000A] @ trim (content (last messages)) \<rparr>)"
proof (cases messages)
  case Nil
  then show ?thesis by (simp add: enrichObjective_def js_index_def)
next
  case (Cons m ms)
  then have "js_index messages (int (length messages) - 1) = Some (last messages)"
    unfolding js_index_last by simp
  with Cons show ?thesis
    by (simp add: enrichObjective_def del: last.simps)
qed

theorem enrichObjective_throws_or_joins_witness:
  "[\<lparr> role = [0x75], functionCall = None :: unit option, content = [] \<rparr>,
    \<lparr> role = assistant, functionCall = None, content = [0x0009, 0x62, 0x20, 0x63, 0x00A0] \<rparr>]
     \<noteq> []
   \<and> enrichObjective [0x20, 0x61, 0x000A]
       (Inr [\<lparr> role = [0x75], functionCall = None :: unit option, content = [] \<rparr>,
             \<lparr> role = assistant, functionCall = None,
               content = [0x0009, 0x62, 0x20, 0x63, 0x00A0] \<rparr>]) =
       Inr \<lparr> enrichedObjective = [0x61, 0x000A, 0x000A, 0x62, 0x20, 0x63] \<rparr>"
proof -
  have t1: "trim [0x20, 0x61, 0x000A] = [0x61]"
    by (simp add: trim_def isWhiteSpace_def)
  have t2: "trim [0x0009, 0x62, 0x20, 0x63, 0x00A0] = [0x62, 0x20, 0x63]"
    by (simp add: trim_def isWhiteSpace_def)
  from enrichObjective_throws_or_joins [of "[0x20, 0x61, 0x000A]"
      "[\<lparr> role = [0x75], functionCall = None :: unit option, content = [] \<rparr>,
        \<lparr> role = assistant, functionCall = None,
          content = [0x0009, 0x62, 0x20, 0x63, 0x00A0] \<rparr>]"]
  show ?thesis by (simp add: t1 t2)
qed

section \<open>Fuel and invariants of the loop\<close>

lemma loop_after_head:
  "head_after k env s = Some s' \<Longrightarrow> loop (k + n) env s = loop n env s'"
proof (induction k arbitrary: s)
  case 0
  then show ?case by simp
next
  case (Suc k)
  then show ?case
    by (auto split: if_splits sum.splits)
qed

lemma loop_more_fuel:
  "\<forall>u. loop m env s \<noteq> Unfinished u \<Longrightarrow> loop (m + j) env s = loop m env s"
proof (induction m arbitrary: s)
  case 0
  then show ?case by simp
next
  case (Suc m)
  then show ?case
    by (auto split: if_splits sum.splits)
qed

lemma loop_resolved_unique:
  assumes "loop m env s = Resolved r tr" and "loop n env s = Resolved r' tr'"
  shows "r' = r \<and> tr' = tr"
proof -
  from assms(1) have "loop (m + n) env s = Resolved r tr"
    using loop_more_fuel [of m env s n] by simp
  moreover from assms(2) have "loop (n + m) env s = Resolved r' tr'"
    using loop_more_fuel [of n env s m] by simp
  ultimately show ?thesis by (simp add: add.commute)
qed

lemma loop_rejected_never_resolved:
  assumes "loop m env s = Rejected err tr"
  shows "loop n env s \<noteq> Resolved r tr'"
proof
  assume "loop n env s = Resolved r tr'"
  then have "loop (n + m) env s = Resolved r tr'"
    using loop_more_fuel [of n env s m] by simp
  moreover from assms have "loop (m + n) env s = Rejected err tr"
    using loop_more_fuel [of m env s n] by simp
  ultimately show False by (simp add: add.commute)
qed

lemma loop_invariant:
  assumes "I s"
    and "\<And>t t'. I t \<Longrightarrow> var_plannedFiles t \<noteq> [] \<Longrightarrow> loop_body env t = Inr t' \<Longrightarrow> I t'"
  shows "case loop fuel env s of
           Resolved r tr \<Rightarrow>
             \<exists>t. I t \<and> var_plannedFiles t = [] \<and> r = result_of t \<and> tr = trace t
         | Rejected err tr \<Rightarrow>
             \<exists>t. I t \<and> var_plannedFiles t \<noteq> [] \<and> loop_body env t = Inl (err, tr)
         | Unfinished t \<Rightarrow> I t"
  using assms(1)
proof (induction fuel arbitrary: s)
  case 0
  then show ?case by simp
next
  case (Suc fuel)
  show ?case
  proof (cases "var_plannedFiles s = []")
    case True
    with Suc.prems show ?thesis by auto
  next
    case False
    show ?thesis
    proof (cases "loop_body env s")
      case (Inl rejection)
      with False Suc.prems show ?thesis
        by (cases rejection) auto
    next
      case (Inr s')
      with False Suc.prems have "I s'" by (auto intro: assms(2))
      from Suc.IH [OF this] False Inr show ?thesis by simp
    qed
  qed
qed

lemma head_after_invariant:
  assumes "I s"
    and "\<And>t t'. I t \<Longrightarrow> var_plannedFiles t \<noteq> [] \<Longrightarrow> loop_body env t = Inr t' \<Longrightarrow> I t'"
    and "head_after k env s = Some s'"
  shows "I s'"
  using assms(1,3)
proof (induction k arbitrary: s)
  case 0
  then show ?case by simp
next
  case (Suc k)
  from Suc.prems(2) obtain t where ne: "var_plannedFiles s \<noteq> []"
    and b: "loop_body env s = Inr t" and h: "head_after k env t = Some s'"
    by (auto split: if_splits sum.splits)
  from Suc.prems(1) ne b have "I t" by (rule assms(2))
  from Suc.IH [OF this h] show ?case .
qed

lemma batch_results_append:
  "batch_results (xs @ ys) = batch_results xs @ batch_results ys"
  by (induction xs) (simp_all split: event.split sum.split)

lemma loop_body_returns:
  assumes "loop_body env t = Inr t'"
  shows "\<exists>result outcome rest.
      refactorBatch env (iterations t) (var_plannedFiles t) = Inr result
      \<and> resetToLastAcceptedCommit env (iterations t) result = Inr ()
      \<and> mutateToMergeRefactorFilesResults result (var_files t) = Inr (var_files t')
      \<and> planFiles env (Suc (iterations t)) = outcome
      \<and> trace t' = trace t @
           [RefactorBatch (var_plannedFiles t) (Inr result),
            ResetToLastAcceptedCommit result (Inr ()), Merge result (Inr ()),
            PlanFiles outcome] @ rest
      \<and> batch_results rest = []"
  using assms
  by (auto simp add: loop_body_def replan_def Let_def split: sum.splits if_splits)

lemma prologue_accumulated:
  "prologue env = Inr s \<Longrightarrow> accumulated_state s"
  by (auto simp add: prologue_def accumulated_state_def accepted_so_far_def
      discarded_so_far_def entries_at_def split: sum.splits)

lemma loop_body_accumulated:
  assumes "accumulated_state t" and "loop_body env t = Inr t'"
  shows "accumulated_state t'"
proof -
  from loop_body_returns [OF assms(2)] obtain result outcome rest where
    m: "mutateToMergeRefactorFilesResults result (var_files t) = Inr (var_files t')" and
    tr: "trace t' = trace t @
           [RefactorBatch (var_plannedFiles t) (Inr result),
            ResetToLastAcceptedCommit result (Inr ()), Merge result (Inr ()),
            PlanFiles outcome] @ rest" and
    r: "batch_results rest = []"
    by blast
  from tr r have b: "batch_results (trace t') = batch_results (trace t) @ [result]"
    by (simp add: batch_results_append)
  from assms(1) show ?thesis
    by (simp add: accumulated_state_def accepted_so_far_def discarded_so_far_def b
        merge_files_returns [OF m])
qed

lemma reached_accumulated:
  assumes "prologue env = Inr s0" and "head_after k env s0 = Some s"
  shows "accumulated_state s"
proof -
  from assms(1) have "accumulated_state s0" by (rule prologue_accumulated)
  moreover have "accumulated_state t \<Longrightarrow> var_plannedFiles t \<noteq> [] \<Longrightarrow>
      loop_body env t = Inr t' \<Longrightarrow> accumulated_state t'" for t t'
    by (rule loop_body_accumulated)
  ultimately show ?thesis
    using assms(2) by (rule head_after_invariant [where I = accumulated_state])
qed

lemma replanning_call_made:
  "planning_outcomes (iteration_events env s) =
     (if (\<exists>result merged.
            refactorBatch env (iterations s) (var_plannedFiles s) = Inr result
            \<and> resetToLastAcceptedCommit env (iterations s) result = Inr ()
            \<and> mutateToMergeRefactorFilesResults result (var_files s) = Inr merged)
      then [planFiles env (Suc (iterations s))] else [])"
  by (auto simp add: iteration_events_def loop_body_def replan_def Let_def
      split: sum.splits prod.splits)

section \<open>The example runs\<close>

lemma example_paths:
  "path_a \<notin> set objectPrototypeNames" "path_b \<notin> set objectPrototypeNames"
  "path_b \<noteq> path_a" "path_a \<noteq> path_b"
  by (simp_all add: path_a_def path_b_def objectPrototypeNames_def js_def)

lemma merge_batch_1_into_empty:
  "mutateToMergeRefactorFilesResults batch_1 emptyFiles = Inr batch_1"
  using example_paths
  by (simp add: mutateToMergeRefactorFilesResults_def mutateToMergeRefactorRecords_def
      Object_entries_def mergeEntry_def get_property_def batch_1_def emptyFiles_def)

lemma merge_batch_2_into_batch_1:
  "mutateToMergeRefactorFilesResults batch_2 batch_1 = Inr files_1_2"
  using example_paths
  by (simp add: mutateToMergeRefactorFilesResults_def mutateToMergeRefactorRecords_def
      Object_entries_def mergeEntry_def get_property_def batch_1_def batch_2_def files_1_2_def)

lemma prologue_plan_ab:
  "planFiles env 0 = Inr plan_ab \<Longrightarrow> prologue env = Inr state_0"
  by (simp add: prologue_def state_0_def plan_ab_def emptyFiles_def)

lemma loop_body_state_0:
  assumes "refactorBatch env 0 [path_a, path_b] = Inr batch_1"
    and "resetToLastAcceptedCommit env 0 batch_1 = Inr ()"
  shows "planFiles env (Suc 0) = Inr plan_ab \<Longrightarrow> loop_body env state_0 = Inr state_1"
    and "planFiles env (Suc 0) = Inr plan_done \<Longrightarrow>
      loop_body env state_0 =
        Inr \<lparr> iterations = Suc 0,
              trace = [PlanFiles (Inr plan_ab), Dispatch plan_ab,
                RefactorBatch [path_a, path_b] (Inr batch_1),
                ResetToLastAcceptedCommit batch_1 (Inr ()), Merge batch_1 (Inr ()),
                PlanFiles (Inr plan_done), Dispatch plan_done],
              var_files = batch_1,
              var_planFilesResults = [plan_ab, plan_done],
              var_plannedFiles = [] \<rparr>"
    and "planFiles env (Suc 0) = Inl CycleDetectedError \<Longrightarrow>
      loop_body env state_0 =
        Inr \<lparr> iterations = Suc 0,
              trace = [PlanFiles (Inr plan_ab), Dispatch plan_ab,
                RefactorBatch [path_a, path_b] (Inr batch_1),
                ResetToLastAcceptedCommit batch_1 (Inr ()), Merge batch_1 (Inr ()),
                PlanFiles (Inl CycleDetectedError), Warn, Dispatch plan_substituted],
              var_files = batch_1,
              var_planFilesResults = [plan_ab, plan_substituted],
              var_plannedFiles = [] \<rparr>"
  using assms
  by (simp_all add: loop_body_def replan_def Let_def state_0_def state_1_def
      merge_batch_1_into_empty
      plan_ab_def plan_done_def plan_substituted_def)


lemma run_env_done:
  "planAndRefactor 2 env_done =
     Resolved
       \<lparr> accepted = accepted batch_1, discarded = discarded batch_1,
         planFilesResults = [plan_ab, plan_done] \<rparr>
       [PlanFiles (Inr plan_ab), Dispatch plan_ab,
        RefactorBatch [path_a, path_b] (Inr batch_1),
        ResetToLastAcceptedCommit batch_1 (Inr ()), Merge batch_1 (Inr ()),
        PlanFiles (Inr plan_done), Dispatch plan_done]"
proof -
  have p: "prologue env_done = Inr state_0"
    by (rule prologue_plan_ab) (simp add: env_done_def)
  have b: "loop_body env_done state_0 =
        Inr \<lparr> iterations = Suc 0,
              trace = [PlanFiles (Inr plan_ab), Dispatch plan_ab,
                RefactorBatch [path_a, path_b] (Inr batch_1),
                ResetToLastAcceptedCommit batch_1 (Inr ()), Merge batch_1 (Inr ()),
                PlanFiles (Inr plan_done), Dispatch plan_done],
              var_files = batch_1,
              var_planFilesResults = [plan_ab, plan_done],
              var_plannedFiles = [] \<rparr>"
    by (rule loop_body_state_0(2)) (simp_all add: env_done_def)
  have ne: "var_plannedFiles state_0 \<noteq> []" by (simp add: state_0_def)
  show ?thesis
    using ne by (simp add: planAndRefactor_def p numeral_2_eq_2 b result_of_def)
qed


lemma head_env_later:
  assumes "planFiles env 0 = Inr plan_ab" and "planFiles env (Suc 0) = Inr plan_ab"
    and "refactorBatch env 0 [path_a, path_b] = Inr batch_1"
    and "resetToLastAcceptedCommit env 0 batch_1 = Inr ()"
  shows "prologue env = Inr state_0" and "head_after (Suc 0) env state_0 = Some state_1"
proof -
  show "prologue env = Inr state_0" using assms(1) by (rule prologue_plan_ab)
  have "loop_body env state_0 = Inr state_1"
    using assms(3,4,2) by (rule loop_body_state_0(1))
  then show "head_after (Suc 0) env state_0 = Some state_1"
    by (simp add: state_0_def)
qed



section \<open>Rejections of the re-planning call\<close>

lemma loop_body_replan_rejected:
  assumes "refactorBatch env (iterations s) (var_plannedFiles s) = Inr result"
    and "resetToLastAcceptedCommit env (iterations s) result = Inr ()"
    and "mutateToMergeRefactorFilesResults result (var_files s) = Inr merged"
    and "planFiles env (Suc (iterations s)) = Inl err"
  shows "loop_body env s =
     (if err = CycleDetectedError
      then Inr \<lparr> iterations = Suc (iterations s),
                 trace = trace s @
                   [RefactorBatch (var_plannedFiles s) (Inr result),
                    ResetToLastAcceptedCommit result (Inr ()), Merge result (Inr ()),
                    PlanFiles (Inl CycleDetectedError), Warn,
                    Dispatch \<lparr> plannedFiles = [], rawResponse = [] \<rparr>],
                 var_files = merged,
                 var_planFilesResults =
                   var_planFilesResults s @ [\<lparr> plannedFiles = [], rawResponse = [] \<rparr>],
                 var_plannedFiles = [] \<rparr>
      else Inl (err, trace s @
                   [RefactorBatch (var_plannedFiles s) (Inr result),
                    ResetToLastAcceptedCommit result (Inr ()), Merge result (Inr ()),
                    PlanFiles (Inl err)]))"
  using assms by (simp add: loop_body_def replan_def Let_def)

text \<open>
  Claim C1. Take a run that has reached the test of the loop in state \<open>s\<close> with files
  planned, and whose re-planning call in this iteration rejects with \<open>err\<close>: the call is
  made exactly when the batch, the reset and the merge before it complete
  (\<open>replanning_call_made\<close>). If \<open>err\<close> is a \<open>CycleDetectedError\<close>, the empty plan is put
  in its place and the run returns, with any fuel that covers the iterations, the planning
  records with the empty plan last and the files accumulated so far: at every file path the
  accepted and the discarded results of all the batches of the run, this one included, in
  their order. If \<open>err\<close> is any other error, the run rejects with \<open>err\<close> and no amount of
  fuel makes it return a result.
\<close>

theorem replan_rejection_handling:
  assumes "prologue env = Inr s0" and "head_after k env s0 = Some s"
    and "var_plannedFiles s \<noteq> []"
    and "refactorBatch env (iterations s) (var_plannedFiles s) = Inr result"
    and "resetToLastAcceptedCommit env (iterations s) result = Inr ()"
    and "mutateToMergeRefactorFilesResults result (var_files s) = Inr merged"
    and "planFiles env (Suc (iterations s)) = Inl err"
  shows "(err = CycleDetectedError \<longrightarrow>
            planAndRefactor (k + Suc (Suc n)) env =
              Resolved
                \<lparr> accepted = accepted merged, discarded = discarded merged,
                  planFilesResults =
                    var_planFilesResults s @ [\<lparr> plannedFiles = [], rawResponse = [] \<rparr>] \<rparr>
                (trace s @
                   [RefactorBatch (var_plannedFiles s) (Inr result),
                    ResetToLastAcceptedCommit result (Inr ()), Merge result (Inr ()),
                    PlanFiles (Inl CycleDetectedError), Warn,
                    Dispatch \<lparr> plannedFiles = [], rawResponse = [] \<rparr>])
            \<and> entries_at (accepted merged) key =
                accepted_so_far (trace s) key @ entries_at (accepted result) key
            \<and> entries_at (discarded merged) key =
                discarded_so_far (trace s) key @ entries_at (discarded result) key)
       \<and> (err \<noteq> CycleDetectedError \<longrightarrow>
            planAndRefactor (k + Suc n) env =
              Rejected err
                (trace s @
                   [RefactorBatch (var_plannedFiles s) (Inr result),
                    ResetToLastAcceptedCommit result (Inr ()), Merge result (Inr ()),
                    PlanFiles (Inl err)])
            \<and> (\<forall>fuel r tr. planAndRefactor fuel env \<noteq> Resolved r tr))"
proof -
  note body = loop_body_replan_rejected [OF assms(4,5,6,7)]
  have run: "planAndRefactor (k + j) env = loop j env s" for j
    using assms(1,2) by (simp add: planAndRefactor_def loop_after_head)
  have all: "planAndRefactor fuel env = loop fuel env s0" for fuel
    using assms(1) by (simp add: planAndRefactor_def)
  from assms(1,2) have "accumulated_state s" by (rule reached_accumulated)
  then have acc: "entries_at (accepted merged) key =
                accepted_so_far (trace s) key @ entries_at (accepted result) key"
      "entries_at (discarded merged) key =
                discarded_so_far (trace s) key @ entries_at (discarded result) key"
    by (simp_all add: accumulated_state_def merge_files_returns [OF assms(6)])
  show ?thesis
  proof (cases "err = CycleDetectedError")
    case True
    with assms(3) body acc show ?thesis
      unfolding run by (simp add: result_of_def)
  next
    case False
    with assms(3) body have
      rej: "loop (Suc n) env s = Rejected err
                (trace s @
                   [RefactorBatch (var_plannedFiles s) (Inr result),
                    ResetToLastAcceptedCommit result (Inr ()), Merge result (Inr ()),
                    PlanFiles (Inl err)])"
      by simp
    then have "loop (k + Suc n) env s0 =
        Rejected err
                (trace s @
                   [RefactorBatch (var_plannedFiles s) (Inr result),
                    ResetToLastAcceptedCommit result (Inr ()), Merge result (Inr ()),
                    PlanFiles (Inl err)])"
      using run [of "Suc n"] all [of "k + Suc n"] by simp
    then have "loop fuel env s0 \<noteq> Resolved r tr" for fuel r tr
      by (rule loop_rejected_never_resolved)
    with False rej show ?thesis
      unfolding run by (simp add: all)
  qed
qed

theorem replan_rejection_handling_witness:
  "prologue env_cycle_later = Inr state_0
   \<and> head_after 1 env_cycle_later state_0 = Some state_1
   \<and> var_plannedFiles state_1 \<noteq> []
   \<and> refactorBatch env_cycle_later (iterations state_1) (var_plannedFiles state_1) = Inr batch_2
   \<and> resetToLastAcceptedCommit env_cycle_later (iterations state_1) batch_2 = Inr ()
   \<and> mutateToMergeRefactorFilesResults batch_2 (var_files state_1) = Inr files_1_2
   \<and> planFiles env_cycle_later (Suc (iterations state_1)) = Inl CycleDetectedError
   \<and> planAndRefactor 3 env_cycle_later =
       Resolved
         \<lparr> accepted = [(path_a, [success_a, failure_a]), (path_b, [failure_b])],
           discarded = [(path_b, [failed_b])],
           planFilesResults = [plan_ab, plan_ab, plan_substituted] \<rparr>
         [PlanFiles (Inr plan_ab), Dispatch plan_ab,
          RefactorBatch [path_a, path_b] (Inr batch_1),
          ResetToLastAcceptedCommit batch_1 (Inr ()), Merge batch_1 (Inr ()),
          PlanFiles (Inr plan_ab), Dispatch plan_ab,
          RefactorBatch [path_a, path_b] (Inr batch_2),
          ResetToLastAcceptedCommit batch_2 (Inr ()), Merge batch_2 (Inr ()),
          PlanFiles (Inl CycleDetectedError), Warn, Dispatch plan_substituted]
   \<and> accepted_so_far (trace state_1) path_a = [success_a]
   \<and> entries_at (accepted batch_2) path_a = [failure_a]
   \<and> entries_at (accepted files_1_2) path_a = [success_a, failure_a]
   \<and> prologue env_fault_later = Inr state_0
   \<and> head_after 1 env_fault_later state_0 = Some state_1
   \<and> refactorBatch env_fault_later (iterations state_1) (var_plannedFiles state_1) = Inr batch_2
   \<and> resetToLastAcceptedCommit env_fault_later (iterations state_1) batch_2 = Inr ()
   \<and> planFiles env_fault_later (Suc (iterations state_1)) = Inl (OtherError 7)
   \<and> planAndRefactor 2 env_fault_later =
       Rejected (OtherError 7)
         [PlanFiles (Inr plan_ab), Dispatch plan_ab,
          RefactorBatch [path_a, path_b] (Inr batch_1),
          ResetToLastAcceptedCommit batch_1 (Inr ()), Merge batch_1 (Inr ()),
          PlanFiles (Inr plan_ab), Dispatch plan_ab,
          RefactorBatch [path_a, path_b] (Inr batch_2),
          ResetToLastAcceptedCommit batch_2 (Inr ()), Merge batch_2 (Inr ()),
          PlanFiles (Inl (OtherError 7))]"
proof -
  have ne: "var_plannedFiles state_1 \<noteq> []" by (simp add: state_1_def)
  have m: "mutateToMergeRefactorFilesResults batch_2 (var_files state_1) = Inr files_1_2"
    by (simp add: state_1_def merge_batch_2_into_batch_1)
  have sofar: "accepted_so_far (trace state_1) path_a = [success_a]"
    by (simp add: accepted_so_far_def state_1_def entries_at_def batch_1_def)
  have e2: "entries_at (accepted batch_2) path_a = [failure_a]"
    using example_paths by (simp add: entries_at_def batch_2_def)
  have p: "prologue env_cycle_later = Inr state_0"
    and h: "head_after (Suc 0) env_cycle_later state_0 = Some state_1"
    by (rule head_env_later; simp add: env_cycle_later_def)+
  have b: "refactorBatch env_cycle_later (iterations state_1) (var_plannedFiles state_1) =
      Inr batch_2"
    by (simp add: env_cycle_later_def state_1_def)
  have r: "resetToLastAcceptedCommit env_cycle_later (iterations state_1) batch_2 = Inr ()"
    by (simp add: env_cycle_later_def)
  have c: "planFiles env_cycle_later (Suc (iterations state_1)) = Inl CycleDetectedError"
    by (simp add: env_cycle_later_def state_1_def)
  have cycle: "planAndRefactor 3 env_cycle_later =
       Resolved
         \<lparr> accepted = [(path_a, [success_a, failure_a]), (path_b, [failure_b])],
           discarded = [(path_b, [failed_b])],
           planFilesResults = [plan_ab, plan_ab, plan_substituted] \<rparr>
         [PlanFiles (Inr plan_ab), Dispatch plan_ab,
          RefactorBatch [path_a, path_b] (Inr batch_1),
          ResetToLastAcceptedCommit batch_1 (Inr ()), Merge batch_1 (Inr ()),
          PlanFiles (Inr plan_ab), Dispatch plan_ab,
          RefactorBatch [path_a, path_b] (Inr batch_2),
          ResetToLastAcceptedCommit batch_2 (Inr ()), Merge batch_2 (Inr ()),
          PlanFiles (Inl CycleDetectedError), Warn, Dispatch plan_substituted]"
    using replan_rejection_handling [OF p h ne b r m c, of 0 path_a]
    by (simp add: numeral_3_eq_3 state_1_def files_1_2_def plan_substituted_def)
  have whole: "entries_at (accepted files_1_2) path_a = [success_a, failure_a]"
    using replan_rejection_handling [OF p h ne b r m c, of 0 path_a]
    by (simp add: sofar e2)
  have p': "prologue env_fault_later = Inr state_0"
    and h': "head_after (Suc 0) env_fault_later state_0 = Some state_1"
    by (rule head_env_later; simp add: env_fault_later_def)+
  have b': "refactorBatch env_fault_later (iterations state_1) (var_plannedFiles state_1) =
      Inr batch_2"
    by (simp add: env_fault_later_def state_1_def)
  have r': "resetToLastAcceptedCommit env_fault_later (iterations state_1) batch_2 = Inr ()"
    by (simp add: env_fault_later_def)
  have c': "planFiles env_fault_later (Suc (iterations state_1)) = Inl (OtherError 7)"
    by (simp add: env_fault_later_def state_1_def)
  have fault: "planAndRefactor 2 env_fault_later =
       Rejected (OtherError 7)
         [PlanFiles (Inr plan_ab), Dispatch plan_ab,
          RefactorBatch [path_a, path_b] (Inr batch_1),
          ResetToLastAcceptedCommit batch_1 (Inr ()), Merge batch_1 (Inr ()),
          PlanFiles (Inr plan_ab), Dispatch plan_ab,
          RefactorBatch [path_a, path_b] (Inr batch_2),
          ResetToLastAcceptedCommit batch_2 (Inr ()), Merge batch_2 (Inr ()),
          PlanFiles (Inl (OtherError 7))]"
    using replan_rejection_handling [OF p' h' ne b' r' m c', of 0]
    by (simp add: numeral_2_eq_2 state_1_def)
  from p h ne b r m c cycle sofar e2 whole p' h' b' r' c' fault show ?thesis
    by simp
qed

section \<open>The order of the events\<close>











section \<open>Planning calls, dispatches and records\<close>



lemma planning_outcomes_append:
  "planning_outcomes (xs @ ys) = planning_outcomes xs @ planning_outcomes ys"
  by (induction xs) (simp_all split: event.split)







lemma prologue_recorded:
  "prologue env = Inr s \<Longrightarrow> recorded_state env s"
  by (auto simp add: prologue_def recorded_state_def plan_record_def split: sum.splits)

lemma loop_body_recorded:
  assumes "recorded_state env s" and "loop_body env s = Inr s'"
  shows "recorded_state env s'"
  using assms
  by (auto simp add: loop_body_def replan_def Let_def recorded_state_def plan_record_def
      planning_outcomes_append split: sum.splits if_splits)

text \<open>
  Claim C8. The \<open>planFilesResults\<close> of a returned result hold one record for each planning
  call of the run, in the order of the calls: the k-th record is the record of the outcome of
  the k-th call. When the first plan is not empty and the first re-planning call is made (the
  batch, the reset and the merge complete) and returns the empty list, the run returns with
  exactly the two records.
\<close>

theorem one_record_per_planning_call:
  "(planAndRefactor fuel env = Resolved r tr \<longrightarrow>
      planning_outcomes tr = map (planFiles env) [0..<length (planFilesResults r)]
      \<and> map Some (planFilesResults r) = map plan_record (planning_outcomes tr))
   \<and> (planFiles env 0 = Inr p0 \<and> plannedFiles p0 \<noteq> []
       \<and> refactorBatch env 0 (plannedFiles p0) = Inr result
       \<and> resetToLastAcceptedCommit env 0 result = Inr ()
       \<and> mutateToMergeRefactorFilesResults result emptyFiles = Inr merged
       \<and> planFiles env 1 = Inr p1 \<and> plannedFiles p1 = [] \<longrightarrow>
      planAndRefactor (Suc (Suc n)) env =
        Resolved
          \<lparr> accepted = accepted merged, discarded = discarded merged,
            planFilesResults = [p0, p1] \<rparr>
          [PlanFiles (Inr p0), Dispatch p0, RefactorBatch (plannedFiles p0) (Inr result),
           ResetToLastAcceptedCommit result (Inr ()), Merge result (Inr ()),
           PlanFiles (Inr p1), Dispatch p1])"
proof -
  have general: "planning_outcomes tr = map (planFiles env) [0..<length (planFilesResults r)]
      \<and> map Some (planFilesResults r) = map plan_record (planning_outcomes tr)"
    if res: "planAndRefactor fuel env = Resolved r tr"
  proof -
    from res obtain s0 where p: "prologue env = Inr s0" and l: "loop fuel env s0 = Resolved r tr"
      by (auto simp: planAndRefactor_def split: sum.splits)
    from p have "recorded_state env s0" by (rule prologue_recorded)
    moreover have "recorded_state env u \<Longrightarrow> var_plannedFiles u \<noteq> [] \<Longrightarrow>
        loop_body env u = Inr u' \<Longrightarrow> recorded_state env u'" for u u'
      by (rule loop_body_recorded)
    ultimately have "case loop fuel env s0 of
           Resolved r tr \<Rightarrow>
             \<exists>u. recorded_state env u \<and> var_plannedFiles u = [] \<and> r = result_of u
               \<and> tr = trace u
         | Rejected err tr \<Rightarrow>
             \<exists>u. recorded_state env u \<and> var_plannedFiles u \<noteq> []
               \<and> loop_body env u = Inl (err, tr)
         | Unfinished u \<Rightarrow> recorded_state env u"
      by (rule loop_invariant [where I = "recorded_state env"])
    with l obtain u where u: "recorded_state env u" "r = result_of u" "tr = trace u"
      by auto
    from u(1) have "length (map Some (var_planFilesResults u)) =
        length (map (planFiles env) [0..<Suc (iterations u)])"
      unfolding recorded_state_def by (metis length_map)
    then have "length (var_planFilesResults u) = Suc (iterations u)" by simp
    with u show ?thesis
      by (simp add: recorded_state_def result_of_def)
  qed
  have particular: "planAndRefactor (Suc (Suc n)) env =
        Resolved
          \<lparr> accepted = accepted merged, discarded = discarded merged,
            planFilesResults = [p0, p1] \<rparr>
          [PlanFiles (Inr p0), Dispatch p0, RefactorBatch (plannedFiles p0) (Inr result),
           ResetToLastAcceptedCommit result (Inr ()), Merge result (Inr ()),
           PlanFiles (Inr p1), Dispatch p1]"
    if h: "planFiles env 0 = Inr p0" "plannedFiles p0 \<noteq> []"
      "refactorBatch env 0 (plannedFiles p0) = Inr result"
      "resetToLastAcceptedCommit env 0 result = Inr ()"
      "mutateToMergeRefactorFilesResults result emptyFiles = Inr merged"
      "planFiles env 1 = Inr p1" "plannedFiles p1 = []"
    using h
    by (simp add: planAndRefactor_def prologue_def loop_body_def replan_def Let_def
        result_of_def emptyFiles_def)
  from general particular show ?thesis by simp
qed

theorem one_record_per_planning_call_witness:
  "planAndRefactor 2 env_done =
     Resolved \<lparr> accepted = accepted batch_1, discarded = discarded batch_1,
                planFilesResults = [plan_ab, plan_done] \<rparr>
       [PlanFiles (Inr plan_ab), Dispatch plan_ab,
        RefactorBatch [path_a, path_b] (Inr batch_1),
        ResetToLastAcceptedCommit batch_1 (Inr ()), Merge batch_1 (Inr ()),
        PlanFiles (Inr plan_done), Dispatch plan_done]
   \<and> planning_outcomes
       [PlanFiles (Inr plan_ab), Dispatch plan_ab,
        RefactorBatch [path_a, path_b] (Inr batch_1),
        ResetToLastAcceptedCommit batch_1 (Inr ()), Merge batch_1 (Inr ()),
        PlanFiles (Inr plan_done), Dispatch plan_done] =
       map (planFiles env_done) [0..<2]
   \<and> map Some [plan_ab, plan_done] = map plan_record [Inr plan_ab, Inr plan_done]
   \<and> planFiles env_done 0 = Inr plan_ab \<and> plannedFiles plan_ab \<noteq> []
   \<and> refactorBatch env_done 0 (plannedFiles plan_ab) = Inr batch_1
   \<and> resetToLastAcceptedCommit env_done 0 batch_1 = Inr ()
   \<and> mutateToMergeRefactorFilesResults batch_1 emptyFiles = Inr batch_1
   \<and> planFiles env_done 1 = Inr plan_done \<and> plannedFiles plan_done = []"
proof -
  have h: "planFiles env_done 0 = Inr plan_ab \<and> plannedFiles plan_ab \<noteq> []
   \<and> refactorBatch env_done 0 (plannedFiles plan_ab) = Inr batch_1
   \<and> resetToLastAcceptedCommit env_done 0 batch_1 = Inr ()
   \<and> planFiles env_done 1 = Inr plan_done \<and> plannedFiles plan_done = []"
    by (simp add: env_done_def plan_ab_def plan_done_def)
  have o: "[Inr plan_ab, Inr plan_done] = map (planFiles env_done) [0..<2]"
    by (simp add: env_done_def upt_rec)
  have c: "map Some [plan_ab, plan_done] = map plan_record [Inr plan_ab, Inr plan_done]"
    by (simp add: plan_record_def)
  from one_record_per_planning_call
      [where fuel = 2 and env = env_done and ?p0.0 = plan_ab and result = batch_1
        and merged = batch_1 and ?p1.0 = plan_done and n = 0]
    run_env_done h o c merge_batch_1_into_empty
  show ?thesis by simp
qed

section \<open>A plan that repeats\<close>

text \<open>
  Claim C7, as amended. When the first planning call returns the files a and b, the batch, the
  reset and the merge of the batch result complete, and the second planning call rejects with
  \<open>CycleDetectedError\<close>, the run returns after the second planning call, with two planning
  records and, at every file path, the results of the first batch only.
\<close>

theorem cycle_signal_ends_run_after_first_batch:
  assumes "planFiles env 0 = Inr \<lparr> plannedFiles = [path_a, path_b], rawResponse = raw \<rparr>"
    and "refactorBatch env 0 [path_a, path_b] = Inr result"
    and "resetToLastAcceptedCommit env 0 result = Inr ()"
    and "mutateToMergeRefactorFilesResults result emptyFiles = Inr merged"
    and "planFiles env 1 = Inl CycleDetectedError"
  shows "planAndRefactor (Suc (Suc n)) env =
           Resolved
             \<lparr> accepted = accepted merged, discarded = discarded merged,
               planFilesResults =
                 [\<lparr> plannedFiles = [path_a, path_b], rawResponse = raw \<rparr>,
                  \<lparr> plannedFiles = [], rawResponse = [] \<rparr>] \<rparr>
             [PlanFiles (Inr \<lparr> plannedFiles = [path_a, path_b], rawResponse = raw \<rparr>),
              Dispatch \<lparr> plannedFiles = [path_a, path_b], rawResponse = raw \<rparr>,
              RefactorBatch [path_a, path_b] (Inr result),
              ResetToLastAcceptedCommit result (Inr ()), Merge result (Inr ()),
              PlanFiles (Inl CycleDetectedError), Warn,
              Dispatch \<lparr> plannedFiles = [], rawResponse = [] \<rparr>]
       \<and> entries_at (accepted merged) key = entries_at (accepted result) key
       \<and> entries_at (discarded merged) key = entries_at (discarded result) key"
proof -
  from merge_files_returns [OF assms(4)] have
    "entries_at (accepted merged) key = entries_at (accepted result) key"
    "entries_at (discarded merged) key = entries_at (discarded result) key"
    by (simp_all add: emptyFiles_def entries_at_def)
  with assms show ?thesis
    by (simp add: planAndRefactor_def prologue_def loop_body_def replan_def Let_def
        result_of_def emptyFiles_def)
qed

theorem cycle_signal_ends_run_after_first_batch_witness:
  "planFiles env_cycle 0 = Inr \<lparr> plannedFiles = [path_a, path_b], rawResponse = [0x72] \<rparr>
   \<and> refactorBatch env_cycle 0 [path_a, path_b] = Inr batch_1
   \<and> resetToLastAcceptedCommit env_cycle 0 batch_1 = Inr ()
   \<and> mutateToMergeRefactorFilesResults batch_1 emptyFiles = Inr batch_1
   \<and> planFiles env_cycle 1 = Inl CycleDetectedError
   \<and> planAndRefactor 2 env_cycle =
       Resolved
         \<lparr> accepted = [(path_a, [success_a])], discarded = [(path_b, [failed_b])],
           planFilesResults =
             [\<lparr> plannedFiles = [path_a, path_b], rawResponse = [0x72] \<rparr>,
              \<lparr> plannedFiles = [], rawResponse = [] \<rparr>] \<rparr>
         [PlanFiles (Inr \<lparr> plannedFiles = [path_a, path_b], rawResponse = [0x72] \<rparr>),
          Dispatch \<lparr> plannedFiles = [path_a, path_b], rawResponse = [0x72] \<rparr>,
          RefactorBatch [path_a, path_b] (Inr batch_1),
          ResetToLastAcceptedCommit batch_1 (Inr ()), Merge batch_1 (Inr ()),
          PlanFiles (Inl CycleDetectedError), Warn,
          Dispatch \<lparr> plannedFiles = [], rawResponse = [] \<rparr>]"
proof -
  have p: "planFiles env_cycle 0 = Inr \<lparr> plannedFiles = [path_a, path_b], rawResponse = [0x72] \<rparr>"
    by (simp add: env_cycle_def plan_ab_def)
  have b: "refactorBatch env_cycle 0 [path_a, path_b] = Inr batch_1"
    by (simp add: env_cycle_def)
  have r: "resetToLastAcceptedCommit env_cycle 0 batch_1 = Inr ()"
    by (simp add: env_cycle_def)
  have c: "planFiles env_cycle 1 = Inl CycleDetectedError"
    by (simp add: env_cycle_def)
  note m = merge_batch_1_into_empty
  from cycle_signal_ends_run_after_first_batch [OF p b r m c, of 0] p b r m c
  show ?thesis by (simp add: numeral_2_eq_2 batch_1_def)
qed

text \<open>
  Claim C7 as stated fails: the first batch accepts no file, the second planning call
  returns the files a and b again and raises nothing, and the loop runs a second batch and
  plans a third time; the result holds the results of both batches and three planning
  records.
\<close>

theorem repeated_plan_continues_counterexample:
  "planFiles env_repeat 0 = Inr plan_ab
   \<and> planFiles env_repeat 1 = Inr plan_ab
   \<and> plannedFiles plan_ab = [path_a, path_b]
   \<and> refactorBatch env_repeat 0 [path_a, path_b] = Inr batch_none
   \<and> accepted batch_none = []
   \<and> planAndRefactor 3 env_repeat =
       Resolved
         \<lparr> accepted = [(path_a, [success_a])],
           discarded = [(path_a, [failed_a]), (path_b, [failed_b, failed_b])],
           planFilesResults = [plan_ab, plan_ab, plan_done] \<rparr>
         [PlanFiles (Inr plan_ab), Dispatch plan_ab,
          RefactorBatch [path_a, path_b] (Inr batch_none),
          ResetToLastAcceptedCommit batch_none (Inr ()), Merge batch_none (Inr ()),
          PlanFiles (Inr plan_ab), Dispatch plan_ab,
          RefactorBatch [path_a, path_b] (Inr batch_1),
          ResetToLastAcceptedCommit batch_1 (Inr ()), Merge batch_1 (Inr ()),
          PlanFiles (Inr plan_done), Dispatch plan_done]"
proof -
  let ?s1 = "\<lparr> iterations = Suc 0, trace = [PlanFiles (Inr plan_ab), Dispatch plan_ab,
          RefactorBatch [path_a, path_b] (Inr batch_none),
          ResetToLastAcceptedCommit batch_none (Inr ()), Merge batch_none (Inr ()),
          PlanFiles (Inr plan_ab), Dispatch plan_ab],
           var_files = batch_none,
           var_planFilesResults = [plan_ab, plan_ab], var_plannedFiles = [path_a, path_b] \<rparr>"
  let ?s2 = "\<lparr> iterations = Suc (Suc 0), trace = [PlanFiles (Inr plan_ab), Dispatch plan_ab,
          RefactorBatch [path_a, path_b] (Inr batch_none),
          ResetToLastAcceptedCommit batch_none (Inr ()), Merge batch_none (Inr ()),
          PlanFiles (Inr plan_ab), Dispatch plan_ab,
          RefactorBatch [path_a, path_b] (Inr batch_1),
          ResetToLastAcceptedCommit batch_1 (Inr ()), Merge batch_1 (Inr ()),
          PlanFiles (Inr plan_done), Dispatch plan_done],
           var_files = \<lparr> accepted = [(path_a, [success_a])],
             discarded = [(path_a, [failed_a]), (path_b, [failed_b, failed_b])] \<rparr>,
           var_planFilesResults = [plan_ab, plan_ab, plan_done], var_plannedFiles = [] \<rparr>"
  have pl: "plannedFiles plan_ab = [path_a, path_b]" "plannedFiles plan_done = []"
    by (simp_all add: plan_ab_def plan_done_def)
  have p: "prologue env_repeat = Inr state_0"
    by (rule prologue_plan_ab) (simp add: env_repeat_def)
  have m0: "mutateToMergeRefactorFilesResults batch_none emptyFiles = Inr batch_none"
    using example_paths
    by (simp add: mutateToMergeRefactorFilesResults_def mutateToMergeRefactorRecords_def
        Object_entries_def mergeEntry_def get_property_def batch_none_def emptyFiles_def)
  have b0: "loop_body env_repeat state_0 = Inr ?s1"
    by (simp add: loop_body_def replan_def Let_def env_repeat_def state_0_def m0 pl)
  have m1: "mutateToMergeRefactorFilesResults batch_1 batch_none =
      Inr \<lparr> accepted = [(path_a, [success_a])],
            discarded = [(path_a, [failed_a]), (path_b, [failed_b, failed_b])] \<rparr>"
    using example_paths
    by (simp add: mutateToMergeRefactorFilesResults_def mutateToMergeRefactorRecords_def
        Object_entries_def mergeEntry_def get_property_def batch_1_def batch_none_def)
  have b1: "loop_body env_repeat ?s1 = Inr ?s2"
    by (simp add: loop_body_def replan_def Let_def env_repeat_def m1 pl)
  have ne: "var_plannedFiles state_0 \<noteq> []" by (simp add: state_0_def)
  have "planAndRefactor (Suc (Suc (Suc 0))) env_repeat = Resolved (result_of ?s2) (trace ?s2)"
    using ne by (simp add: planAndRefactor_def p b0 b1)
  then have "planAndRefactor 3 env_repeat = Resolved (result_of ?s2) (trace ?s2)"
    by (simp add: numeral_3_eq_3)
  moreover have "planFiles env_repeat 0 = Inr plan_ab" "planFiles env_repeat 1 = Inr plan_ab"
    "refactorBatch env_repeat 0 [path_a, path_b] = Inr batch_none"
    by (simp_all add: env_repeat_def)
  ultimately show ?thesis
    by (simp add: result_of_def pl batch_none_def)
qed

end
